theory Spec2Isabelle
  imports
    Complex_Main
    "HOL-Library.Multiset"
    "HOL-Library.Char_ord"
    "HOL-Library.List_Lexorder"
    "HOL-Library.Product_Lexorder"
begin

section \<open>Data model\<close>

text \<open>
  The analysis module works on pandas data frames. A frame is modelled as the list of its
  rows, in positional order. The input frame has the columns \<open>city\<close>, \<open>timestamp\<close>,
  \<open>temperature\<close> and \<open>season\<close>. Timestamps are \<open>datetime64\<close> values, that is, integers
  counting from the epoch. Temperatures are numeric: they are modelled as exact reals, so
  rounding of binary floating point is not part of the model. The one floating-point value
  that the computations themselves introduce, NaN, is modelled: a derived column holds
  \<open>real option\<close>, with \<open>None\<close> for NaN.
\<close>

type_synonym float = "real option"

record row =
  city :: string
  timestamp :: int
  temperature :: real
  season :: string

text \<open>The frame returned by \<open>analyze_city\<close>: the input columns and the five added ones.\<close>

record result_row = row +
  rolling_mean :: float
  rolling_std :: float
  lower_bound :: float
  upper_bound :: float
  is_anomaly :: bool

text \<open>
  The frame returned by \<open>compute_season_stats\<close> after \<open>reset_index\<close>: the two group keys
  (the columns \<open>city\<close> and \<open>season\<close>, here \<open>st_city\<close> and \<open>st_season\<close>) and the two
  aggregates \<open>mean\<close> and \<open>std\<close>.
\<close>

record season_stat =
  st_city :: string
  st_season :: string
  mean :: float
  std :: float

text \<open>The exceptions that the pandas calls of the module raise, by their class.\<close>

datatype py_error = ValueError | IndexError

section \<open>Arithmetic and comparison with NaN\<close>

text \<open>An arithmetic operation with a NaN operand is NaN; a comparison with NaN is false.\<close>

definition nan_add :: "float \<Rightarrow> float \<Rightarrow> float" where
  "nan_add a b = (case a of None \<Rightarrow> None | Some x \<Rightarrow> (case b of None \<Rightarrow> None | Some y \<Rightarrow> Some (x + y)))"

definition nan_sub :: "float \<Rightarrow> float \<Rightarrow> float" where
  "nan_sub a b = (case a of None \<Rightarrow> None | Some x \<Rightarrow> (case b of None \<Rightarrow> None | Some y \<Rightarrow> Some (x - y)))"

definition nan_mul :: "float \<Rightarrow> float \<Rightarrow> float" where
  "nan_mul a b = (case a of None \<Rightarrow> None | Some x \<Rightarrow> (case b of None \<Rightarrow> None | Some y \<Rightarrow> Some (x * y)))"

definition nan_lt :: "float \<Rightarrow> float \<Rightarrow> bool" where
  "nan_lt a b = (case a of None \<Rightarrow> False | Some x \<Rightarrow> (case b of None \<Rightarrow> False | Some y \<Rightarrow> x < y))"

definition nan_gt :: "float \<Rightarrow> float \<Rightarrow> bool" where
  "nan_gt a b = (case a of None \<Rightarrow> False | Some x \<Rightarrow> (case b of None \<Rightarrow> False | Some y \<Rightarrow> x > y))"

section \<open>Statistics of pandas\<close>

text \<open>
  The sum of squared deviations from the mean, and the variance with one delta degree of
  freedom (\<open>ddof = 1\<close>, the default of \<open>std\<close> in pandas, both for rolling windows and for
  groups). The variance is NaN unless there are more observations than \<open>ddof\<close>.
\<close>

definition average :: "real list \<Rightarrow> real" where
  "average xs = sum_list xs / real (length xs)"

definition ssqdm :: "real list \<Rightarrow> real" where
  "ssqdm xs = (\<Sum>x\<leftarrow>xs. (x - average xs)\<^sup>2)"

definition var_ddof1 :: "real list \<Rightarrow> float" where
  "var_ddof1 xs = (if length xs > 1 then Some (ssqdm xs / real (length xs - 1)) else None)"

subsection \<open>Rolling windows\<close>

text \<open>
  \<open>rolling(window=w, min_periods=minp)\<close> on a column: the window at position \<open>i\<close> holds
  the last \<open>w\<close> values up to and including position \<open>i\<close>, fewer at the start of the
  column. An aggregate is NaN where the window holds fewer than \<open>minp\<close> observations;
  the mean is also NaN on an empty window.
\<close>

definition window_at :: "nat \<Rightarrow> real list \<Rightarrow> nat \<Rightarrow> real list" where
  "window_at w xs i = drop (Suc i - w) (take (Suc i) xs)"

definition rolling :: "nat \<Rightarrow> real list \<Rightarrow> real list list" where
  "rolling w xs = map (window_at w xs) [0..<length xs]"

definition roll_mean :: "nat \<Rightarrow> real list \<Rightarrow> float" where
  "roll_mean minp win =
     (let nobs = length win
      in if nobs \<ge> minp \<and> nobs > 0 then Some (average win) else None)"

definition roll_std :: "nat \<Rightarrow> real list \<Rightarrow> float" where
  "roll_std minp win =
     (let nobs = length win
      in if nobs \<ge> max minp 1 then map_option sqrt (var_ddof1 win) else None)"

subsection \<open>Group aggregates\<close>

definition group_mean :: "real list \<Rightarrow> float" where
  "group_mean xs = (if xs = [] then None else Some (average xs))"

definition group_std :: "real list \<Rightarrow> float" where
  "group_std xs = map_option sqrt (var_ddof1 xs)"

section \<open>Sorting and distinct values\<close>

text \<open>
  \<open>sort_values("timestamp")\<close> is called with the default \<open>kind="quicksort"\<close>, which pandas
  documents as not stable: the result is the rows in ascending order of the timestamp, and
  the order of rows with equal timestamps is not fixed by the call. The sort is therefore
  an argument of the model; \<open>sort_values_ok\<close> is what the call guarantees on a frame, and
  \<open>stable_sort_values\<close> is the instance that keeps the input order of equal timestamps.
\<close>

definition sort_values_ok :: "(row list \<Rightarrow> row list) \<Rightarrow> row list \<Rightarrow> bool" where
  "sort_values_ok sort_values df \<longleftrightarrow>
     mset (sort_values df) = mset df \<and> sorted (map timestamp (sort_values df))"

definition stable_sort_values :: "row list \<Rightarrow> row list" where
  "stable_sort_values df = sort_key timestamp df"

text \<open>\<open>Series.unique()\<close>: the distinct values in order of first appearance.\<close>

fun unique :: "'a list \<Rightarrow> 'a list" where
  "unique [] = []"
| "unique (x # xs) = x # unique (filter (\<lambda>y. y \<noteq> x) xs)"

section \<open>Rolling analysis of one city\<close>

text \<open>
  \<open>analyze_city\<close>: sort by timestamp, compute the rolling mean and standard deviation of
  the temperature with \<open>min_periods = window\<close>, derive the two bounds and the flag.
  \<open>rolling\<close> raises \<open>ValueError\<close> for a negative window.
\<close>

definition mk_result :: "row \<Rightarrow> float \<Rightarrow> float \<Rightarrow> result_row" where
  "mk_result r m s =
     (let lower = nan_sub m (nan_mul (Some 2) s);
          upper = nan_add m (nan_mul (Some 2) s)
      in \<lparr> city = city r, timestamp = timestamp r, temperature = temperature r,
           season = season r,
           rolling_mean = m, rolling_std = s, lower_bound = lower, upper_bound = upper,
           is_anomaly = (nan_lt (Some (temperature r)) lower \<or> nan_gt (Some (temperature r)) upper) \<rparr>)"

definition analyze_city :: "(row list \<Rightarrow> row list) \<Rightarrow> row list \<Rightarrow> int \<Rightarrow> py_error + result_row list" where
  "analyze_city sort_values df_with_city window =
     (let df_with_city_copy = sort_values df_with_city
      in if window < 0 then Inl ValueError
         else
           let w = nat window;
               wins = rolling w (map temperature df_with_city_copy);
               means = map (roll_mean w) wins;
               stds = map (roll_std w) wins
           in Inr (map (\<lambda>i. mk_result (df_with_city_copy ! i) (means ! i) (stds ! i))
                       [0..<length df_with_city_copy]))"

section \<open>All cities, serially and through the process pool\<close>

text \<open>\<open>pd.concat\<close> of a list of frames; it raises \<open>ValueError\<close> on the empty list.\<close>

definition concat_frames :: "'a list list \<Rightarrow> py_error + 'a list" where
  "concat_frames results =
     (if results = [] then Inl ValueError
      else Inr (concat results))"

text \<open>
  \<open>analyze_all_cities\<close>: the loop analyses the rows of one city after the other and appends
  each frame to \<open>results\<close>; an exception leaves the loop.
\<close>

fun analyze_loop ::
  "(row list \<Rightarrow> row list) \<Rightarrow> row list \<Rightarrow> int \<Rightarrow> string list \<Rightarrow> result_row list list
     \<Rightarrow> py_error + result_row list list" where
  "analyze_loop sort_values df window [] results = Inr results"
| "analyze_loop sort_values df window (c # cities) results =
     (case analyze_city sort_values (filter (\<lambda>r. city r = c) df) window of
        Inl e \<Rightarrow> Inl e
      | Inr df_with_city \<Rightarrow> analyze_loop sort_values df window cities (results @ [df_with_city]))"

definition analyze_all_cities :: "(row list \<Rightarrow> row list) \<Rightarrow> row list \<Rightarrow> int \<Rightarrow> py_error + result_row list" where
  "analyze_all_cities sort_values df window =
     (let cities = unique (map city df)
      in case analyze_loop sort_values df window cities [] of
           Inl e \<Rightarrow> Inl e
         | Inr results \<Rightarrow> concat_frames results)"

text \<open>
  \<open>analyze_all_cities_parallel\<close>: the loop only builds the task list; the pool maps the
  wrapper over it. \<open>executor.map\<close> yields the results in the order of the tasks, and
  \<open>list\<close> raises the exception of the first task, in that order, that failed. The worker
  processes share no state, so the pool is modelled by its result.
\<close>

fun task_loop :: "row list \<Rightarrow> int \<Rightarrow> string list \<Rightarrow> (row list \<times> int) list \<Rightarrow> (row list \<times> int) list" where
  "task_loop df window [] tasks = tasks"
| "task_loop df window (c # cities) tasks =
     task_loop df window cities (tasks @ [(filter (\<lambda>r. city r = c) df, window)])"

definition analyze_city_wrapper :: "(row list \<Rightarrow> row list) \<Rightarrow> row list \<times> int \<Rightarrow> py_error + result_row list" where
  "analyze_city_wrapper sort_values args = (case args of (df_city, window) \<Rightarrow> analyze_city sort_values df_city window)"

fun executor_map :: "('a \<Rightarrow> py_error + 'b) \<Rightarrow> 'a list \<Rightarrow> py_error + 'b list" where
  "executor_map f [] = Inr []"
| "executor_map f (t # tasks) =
     (case f t of
        Inl e \<Rightarrow> Inl e
      | Inr r \<Rightarrow> (case executor_map f tasks of Inl e \<Rightarrow> Inl e | Inr rs \<Rightarrow> Inr (r # rs)))"

text \<open>
  The \<open>with ProcessPoolExecutor()\<close> block and the \<open>pd.concat\<close> after it, for any worker
  function and task list: the rows are merged only if every task returned.
\<close>

definition run_pool :: "('a \<Rightarrow> py_error + 'b list) \<Rightarrow> 'a list \<Rightarrow> py_error + 'b list" where
  "run_pool worker tasks =
     (case executor_map worker tasks of
        Inl e \<Rightarrow> Inl e
      | Inr results \<Rightarrow> concat_frames results)"

definition analyze_all_cities_parallel :: "(row list \<Rightarrow> row list) \<Rightarrow> row list \<Rightarrow> int \<Rightarrow> py_error + result_row list" where
  "analyze_all_cities_parallel sort_values df window =
     (let cities = unique (map city df);
          tasks = task_loop df window cities []
      in run_pool (analyze_city_wrapper sort_values) tasks)"

section \<open>Seasonal statistics and the check of the current temperature\<close>

text \<open>
  \<open>compute_season_stats\<close>: \<open>groupby(["city", "season"])\<close> sorts the distinct keys, and
  \<open>agg(["mean", "std"])\<close> aggregates the temperatures of each group.
\<close>

definition compute_season_stats :: "row list \<Rightarrow> season_stat list" where
  "compute_season_stats df =
     map (\<lambda>(c, s).
            let temps = map temperature (filter (\<lambda>r. city r = c \<and> season r = s) df)
            in \<lparr> st_city = c, st_season = s, mean = group_mean temps, std = group_std temps \<rparr>)
         (sort (remdups (map (\<lambda>r. (city r, season r)) df)))"

text \<open>
  \<open>check_current_temperature_anomaly\<close> reads the month from the clock; the month is an
  argument of the model. \<open>.iloc[0]\<close> raises \<open>IndexError\<close> on an empty selection.
\<close>

definition season_of_month :: "nat \<Rightarrow> string" where
  "season_of_month month_num =
     (if month_num \<in> set [12, 1, 2] then ''winter''
      else if month_num \<in> set [3, 4, 5] then ''spring''
      else if month_num \<in> set [6, 7, 8] then ''summer''
      else ''autumn'')"

definition check_current_temperature_anomaly ::
  "nat \<Rightarrow> string \<Rightarrow> real \<Rightarrow> season_stat list \<Rightarrow> py_error + bool" where
  "check_current_temperature_anomaly month_num city_name current_temp season_stats =
     (let season_name = season_of_month month_num;
          season_filtered =
            filter (\<lambda>s. st_city s = city_name \<and> st_season s = season_name) season_stats
      in case season_filtered of
           [] \<Rightarrow> Inl IndexError
         | s # _ \<Rightarrow>
             let season_mean = mean s;
                 season_std = std s;
                 season_lower_bound = nan_sub season_mean (nan_mul (Some 2) season_std);
                 season_upper_bound = nan_add season_mean (nan_mul (Some 2) season_std)
             in if nan_lt (Some current_temp) season_lower_bound
                   \<or> nan_gt (Some current_temp) season_upper_bound
                then Inr True else Inr False)"

section \<open>Sample frames\<close>

definition moscow_a :: row where
  "moscow_a = \<lparr> city = ''Moscow'', timestamp = 3, temperature = 3, season = ''winter'' \<rparr>"

definition moscow_b :: row where
  "moscow_b = \<lparr> city = ''Moscow'', timestamp = 1, temperature = 1, season = ''autumn'' \<rparr>"

definition moscow_c :: row where
  "moscow_c = \<lparr> city = ''Moscow'', timestamp = 5, temperature = 7, season = ''autumn'' \<rparr>"

definition berlin_a :: row where
  "berlin_a = \<lparr> city = ''Berlin'', timestamp = 2, temperature = 4, season = ''winter'' \<rparr>"

definition berlin_b :: row where
  "berlin_b = \<lparr> city = ''Berlin'', timestamp = 4, temperature = 4, season = ''winter'' \<rparr>"

definition city_a_winter :: season_stat where
  "city_a_winter = \<lparr> st_city = ''CityA'', st_season = ''winter'', mean = Some 20, std = Some 5 \<rparr>"

section \<open>Basic facts\<close>

subsection \<open>Windows and aggregates\<close>

lemma length_window_at: "i < length xs \<Longrightarrow> length (window_at w xs i) = min w (Suc i)"
  by (auto simp: window_at_def)

lemma window_at_full: "w \<le> Suc i \<Longrightarrow> window_at w xs i = take w (drop (Suc i - w) xs)"
  by (simp add: window_at_def drop_take)

lemma length_full_window:
  "w \<le> Suc i \<Longrightarrow> i < length xs \<Longrightarrow> length (take w (drop (Suc i - w) xs)) = w"
  by auto

lemma window_at_single: "i < length xs \<Longrightarrow> window_at (Suc 0) xs i = [xs ! i]"
  by (simp add: window_at_def take_Suc_conv_app_nth)

lemma roll_short: "length win < w \<Longrightarrow> roll_mean w win = None \<and> roll_std w win = None"
  by (simp add: roll_mean_def roll_std_def)

lemma roll_mean_full:
  "0 < length win \<Longrightarrow> roll_mean (length win) win = Some (sum_list win / real (length win))"
  by (simp add: roll_mean_def average_def)

lemma roll_std_full:
  "1 < length win \<Longrightarrow>
   roll_std (length win) win =
     Some (sqrt ((\<Sum>x\<leftarrow>win. (x - sum_list win / real (length win))\<^sup>2) / real (length win - 1)))"
  by (simp add: roll_std_def var_ddof1_def ssqdm_def average_def)

lemma roll_std_single: "length win = 1 \<Longrightarrow> roll_std 1 win = None"
  by (simp add: roll_std_def var_ddof1_def)

lemma roll_single: "roll_mean (Suc 0) [x] = Some x" "roll_std (Suc 0) [x] = None"
  by (simp_all add: roll_mean_def roll_std_def var_ddof1_def average_def)




lemma group_std_single: "length xs = 1 \<Longrightarrow> group_std xs = None"
  by (simp add: group_std_def var_ddof1_def)

subsection \<open>The columns of a result row\<close>

lemma mk_result_mean [simp]: "rolling_mean (mk_result r m s) = m"
  by (simp add: mk_result_def Let_def)

lemma mk_result_std [simp]: "rolling_std (mk_result r m s) = s"
  by (simp add: mk_result_def Let_def)

lemma mk_result_temperature [simp]: "temperature (mk_result r m s) = temperature r"
  by (simp add: mk_result_def Let_def)

lemma mk_result_lower: "lower_bound (mk_result r m s) = nan_sub m (nan_mul (Some 2) s)"
  by (simp add: mk_result_def Let_def)

lemma mk_result_upper: "upper_bound (mk_result r m s) = nan_add m (nan_mul (Some 2) s)"
  by (simp add: mk_result_def Let_def)

lemma nan_bounds_some [simp]:
  "nan_sub (Some m) (nan_mul (Some 2) (Some s)) = Some (m - 2 * s)"
  "nan_add (Some m) (nan_mul (Some 2) (Some s)) = Some (m + 2 * s)"
  by (simp_all add: nan_sub_def nan_add_def nan_mul_def)

lemma nan_bounds_none [simp]:
  "nan_sub m (nan_mul (Some 2) None) = None"
  "nan_add m (nan_mul (Some 2) None) = None"
  by (simp_all add: nan_sub_def nan_add_def nan_mul_def split: option.splits)


lemma mk_result_anomaly_none [simp]: "\<not> is_anomaly (mk_result r m None)"
  by (simp add: mk_result_def Let_def nan_lt_def nan_gt_def)

subsection \<open>The result of \<open>analyze_city\<close>\<close>

lemma analyze_city_Inr:
  assumes "0 \<le> window"
  shows "analyze_city srt df window =
     Inr (map (\<lambda>i. mk_result (srt df ! i)
                   (roll_mean (nat window) (window_at (nat window) (map temperature (srt df)) i))
                   (roll_std (nat window) (window_at (nat window) (map temperature (srt df)) i)))
              [0..<length (srt df)])"
  using assms by (simp add: analyze_city_def Let_def rolling_def)

lemma analyze_city_fails:
  "analyze_city srt df window = Inl e \<longleftrightarrow> window < 0 \<and> e = ValueError"
  by (auto simp: analyze_city_def Let_def)

subsection \<open>Sample frames, sorted\<close>

lemma sorted_moscow:
  "stable_sort_values [moscow_a, moscow_b, moscow_c] = [moscow_b, moscow_a, moscow_c]"
  by (simp add: stable_sort_values_def moscow_a_def moscow_b_def moscow_c_def)


section \<open>Rolling statistics on a full window\<close>

text \<open>
  Claim C1 does not hold for a window of one point. With \<open>window = 1\<close> the rolling
  standard deviation divides by \<open>window - 1 = 0\<close>, and pandas returns NaN for it, not a
  number: on the frame of two Moscow rows every result row has \<open>rolling_std\<close>,
  \<open>lower_bound\<close> and \<open>upper_bound\<close> absent, while the rolling mean is the value itself.
\<close>

theorem analyze_city_full_window_counterexample:
  "analyze_city stable_sort_values [moscow_a, moscow_b] 1
     = Inr [\<lparr> city = ''Moscow'', timestamp = 1, temperature = 1, season = ''autumn'',
              rolling_mean = Some 1, rolling_std = None, lower_bound = None,
              upper_bound = None, is_anomaly = False \<rparr>,
            \<lparr> city = ''Moscow'', timestamp = 3, temperature = 3, season = ''winter'',
              rolling_mean = Some 3, rolling_std = None, lower_bound = None,
              upper_bound = None, is_anomaly = False \<rparr>]"
  by (simp add: analyze_city_def stable_sort_values_def moscow_a_def moscow_b_def rolling_def
      window_at_def roll_mean_def roll_std_def var_ddof1_def average_def mk_result_def Let_def
      nan_sub_def nan_add_def nan_mul_def nan_lt_def nan_gt_def)

text \<open>
  Claim C1, amended. Let \<open>S\<close> be the sorted series, \<open>1 \<le> W \<le> len(S)\<close> and \<open>i \<ge> W - 1\<close>, and
  let \<open>win\<close> be the \<open>W\<close> values \<open>S[i-W+1..i]\<close>. The result at index \<open>i\<close> has \<open>rolling_mean\<close>
  equal to the arithmetic mean of \<open>win\<close>. If \<open>W \<ge> 2\<close>, \<open>rolling_std\<close> is the sample standard
  deviation of \<open>win\<close> (divisor \<open>W - 1\<close>), \<open>lower_bound\<close> is the mean minus twice that
  deviation and \<open>upper_bound\<close> the mean plus twice that deviation. If \<open>W = 1\<close>,
  \<open>rolling_std\<close> and both bounds are absent.
\<close>

theorem analyze_city_full_window:
  assumes "1 \<le> W" and "W \<le> length (srt df)" and "W - 1 \<le> i" and "i < length (srt df)"
  shows "\<exists>rs win. analyze_city srt df (int W) = Inr rs \<and> length rs = length (srt df)
          \<and> win = take W (drop (Suc i - W) (map temperature (srt df)))
          \<and> rolling_mean (rs ! i) = Some (sum_list win / real W)
          \<and> (2 \<le> W \<longrightarrow>
                rolling_std (rs ! i)
                  = Some (sqrt ((\<Sum>x\<leftarrow>win. (x - sum_list win / real W)\<^sup>2) / real (W - 1)))
              \<and> lower_bound (rs ! i)
                  = Some (sum_list win / real W
                          - 2 * sqrt ((\<Sum>x\<leftarrow>win. (x - sum_list win / real W)\<^sup>2) / real (W - 1)))
              \<and> upper_bound (rs ! i)
                  = Some (sum_list win / real W
                          + 2 * sqrt ((\<Sum>x\<leftarrow>win. (x - sum_list win / real W)\<^sup>2) / real (W - 1))))
          \<and> (W = 1 \<longrightarrow> rolling_std (rs ! i) = None
                \<and> lower_bound (rs ! i) = None \<and> upper_bound (rs ! i) = None)"
proof -
  let ?xs = "map temperature (srt df)"
  let ?win = "take W (drop (Suc i - W) ?xs)"
  have wi: "W \<le> Suc i" using assms(3) by simp
  have w: "window_at W ?xs i = ?win" using wi by (rule window_at_full)
  have len: "length ?win = W" using wi assms(4) by (simp add: length_full_window)
  have m: "roll_mean W ?win = Some (sum_list ?win / real W)"
    using roll_mean_full [of ?win] assms(1) len by simp
  have s2: "roll_std W ?win
              = Some (sqrt ((\<Sum>x\<leftarrow>?win. (x - sum_list ?win / real W)\<^sup>2) / real (W - 1)))"
    if "2 \<le> W"
    using roll_std_full [of ?win] that len by simp
  have s1: "roll_std W ?win = None" if "W = 1"
    using roll_std_single [of ?win] that len by simp
  have rs: "analyze_city srt df (int W)
              = Inr (map (\<lambda>j. mk_result (srt df ! j) (roll_mean W (window_at W ?xs j))
                                 (roll_std W (window_at W ?xs j))) [0..<length (srt df)])"
    by (simp add: analyze_city_Inr)
  show ?thesis
    unfolding rs using assms(4) w m s1 s2
    by (auto simp: mk_result_lower mk_result_upper)
qed

theorem analyze_city_full_window_witness:
  "\<exists>rs. analyze_city stable_sort_values [moscow_a, moscow_b, moscow_c] 2 = Inr rs \<and> length rs = 3
     \<and> rolling_mean (rs ! 1) = Some 2 \<and> rolling_std (rs ! 1) = Some (sqrt 2)
     \<and> lower_bound (rs ! 1) = Some (2 - 2 * sqrt 2)
     \<and> upper_bound (rs ! 1) = Some (2 + 2 * sqrt 2)"
  using analyze_city_full_window [of 2 stable_sort_values "[moscow_a, moscow_b, moscow_c]" 1]
  unfolding sorted_moscow by (auto simp: moscow_a_def moscow_b_def moscow_c_def)

section \<open>Rolling statistics before the window is full\<close>

text \<open>
  Claim C2. For every series, every window \<open>W > 0\<close> and every sorted index \<open>i\<close> with
  \<open>i + 1 < W\<close>, the result at index \<open>i\<close> has \<open>rolling_mean\<close>, \<open>rolling_std\<close>,
  \<open>lower_bound\<close> and \<open>upper_bound\<close> absent, and \<open>is_anomaly\<close> false.
\<close>

theorem analyze_city_short_window:
  assumes "0 < W" and "i < length (srt df)" and "Suc i < W"
  shows "\<exists>rs. analyze_city srt df (int W) = Inr rs \<and> length rs = length (srt df)
          \<and> rolling_mean (rs ! i) = None \<and> rolling_std (rs ! i) = None
          \<and> lower_bound (rs ! i) = None \<and> upper_bound (rs ! i) = None
          \<and> \<not> is_anomaly (rs ! i)"
proof -
  let ?win = "window_at W (map temperature (srt df)) i"
  have "length ?win < W" using assms by (simp add: length_window_at)
  then have "roll_mean W ?win = None" "roll_std W ?win = None"
    using roll_short by blast+
  then show ?thesis using assms(2)
    by (simp add: analyze_city_Inr mk_result_lower mk_result_upper)
qed

theorem analyze_city_short_window_witness:
  "\<exists>rs. analyze_city stable_sort_values [moscow_a, moscow_b, moscow_c] 3 = Inr rs \<and> length rs = 3
     \<and> rolling_mean (rs ! 1) = None \<and> rolling_std (rs ! 1) = None
     \<and> lower_bound (rs ! 1) = None \<and> upper_bound (rs ! 1) = None \<and> \<not> is_anomaly (rs ! 1)"
  using analyze_city_short_window [of 3 1 stable_sort_values "[moscow_a, moscow_b, moscow_c]"]
  unfolding sorted_moscow by auto

section \<open>A window of identical values\<close>



section \<open>A window of one point\<close>

text \<open>
  Claim C8 does not hold. With \<open>window = 1\<close> the rolling standard deviation is NaN, not 0,
  and so are both bounds: the result for a single Moscow row of temperature 7 is not the
  row with \<open>rolling_std = 0\<close> and \<open>lower_bound = upper_bound = 7\<close> that the claim describes.
\<close>

theorem analyze_city_window_one_counterexample:
  "analyze_city stable_sort_values [moscow_c] 1
     \<noteq> Inr [\<lparr> city = ''Moscow'', timestamp = 5, temperature = 7, season = ''autumn'',
              rolling_mean = Some 7, rolling_std = Some 0, lower_bound = Some 7,
              upper_bound = Some 7, is_anomaly = False \<rparr>]"
  by (simp add: analyze_city_def stable_sort_values_def moscow_c_def rolling_def
      window_at_def roll_mean_def roll_std_def var_ddof1_def average_def mk_result_def Let_def
      nan_sub_def nan_add_def nan_mul_def nan_lt_def nan_gt_def)

text \<open>
  Claim C8, amended. For every series and \<open>window = 1\<close>, at every sorted index \<open>i\<close> the
  rolling mean is the value \<open>S[i]\<close>, the rolling standard deviation and both bounds are
  absent, and \<open>is_anomaly\<close> is false.
\<close>

theorem analyze_city_window_one:
  assumes "i < length (srt df)"
  shows "\<exists>rs. analyze_city srt df 1 = Inr rs \<and> length rs = length (srt df)
          \<and> rolling_mean (rs ! i) = Some (temperature (srt df ! i))
          \<and> rolling_std (rs ! i) = None
          \<and> lower_bound (rs ! i) = None \<and> upper_bound (rs ! i) = None
          \<and> \<not> is_anomaly (rs ! i)"
proof -
  let ?xs = "map temperature (srt df)"
  have w: "window_at 1 ?xs i = [temperature (srt df ! i)]"
    using assms window_at_single [of i ?xs] by simp
  have rs: "analyze_city srt df 1
              = Inr (map (\<lambda>j. mk_result (srt df ! j) (roll_mean 1 (window_at 1 ?xs j))
                                 (roll_std 1 (window_at 1 ?xs j))) [0..<length (srt df)])"
    using analyze_city_Inr [of 1 srt df] by simp
  show ?thesis
    unfolding rs using assms w
    by (simp add: roll_single mk_result_lower mk_result_upper)
qed

theorem analyze_city_window_one_witness:
  "\<exists>rs. analyze_city stable_sort_values [moscow_a, moscow_b, moscow_c] 1 = Inr rs \<and> length rs = 3
     \<and> rolling_mean (rs ! 2) = Some 7 \<and> rolling_std (rs ! 2) = None
     \<and> lower_bound (rs ! 2) = None \<and> upper_bound (rs ! 2) = None \<and> \<not> is_anomaly (rs ! 2)"
  using analyze_city_window_one [of 2 stable_sort_values "[moscow_a, moscow_b, moscow_c]"]
  unfolding sorted_moscow by (auto simp: moscow_c_def)

section \<open>The process pool against the serial loop\<close>

lemma set_unique [simp]: "set (unique xs) = set xs"
  by (induction xs rule: unique.induct) auto

lemma task_loop_map:
  "task_loop df window cities tasks
     = tasks @ map (\<lambda>c. (filter (\<lambda>r. city r = c) df, window)) cities"
  by (induction cities arbitrary: tasks) simp_all

lemma analyze_loop_executor_map:
  "analyze_loop srt df window cities results
     = (case executor_map (analyze_city_wrapper srt)
               (map (\<lambda>c. (filter (\<lambda>r. city r = c) df, window)) cities) of
          Inl e \<Rightarrow> Inl e
        | Inr rs \<Rightarrow> Inr (results @ rs))"
proof (induction cities arbitrary: results)
  case Nil
  then show ?case by simp
next
  case (Cons c cities)
  show ?case
  proof (cases "analyze_city srt (filter (\<lambda>r. city r = c) df) window")
    case (Inl e)
    then show ?thesis by (simp add: analyze_city_wrapper_def)
  next
    case (Inr r)
    then show ?thesis
      by (simp add: analyze_city_wrapper_def Cons.IH split: sum.splits)
  qed
qed

lemma executor_map_failure:
  "t \<in> set tasks \<Longrightarrow> isl (f t) \<Longrightarrow> isl (executor_map f tasks)"
  by (induction tasks) (auto split: sum.splits)

text \<open>
  Claim C3. For every dataset and window, the parallel run over the per-city partitions
  returns what the serial loop over the same partitions returns: the same error, or the
  same rows, in the same order and hence as the same multiset.
\<close>

theorem parallel_equals_serial:
  "analyze_all_cities_parallel srt df window = analyze_all_cities srt df window
   \<and> map_sum id mset (analyze_all_cities_parallel srt df window)
       = map_sum id mset (analyze_all_cities srt df window)"
proof -
  have "analyze_all_cities_parallel srt df window = analyze_all_cities srt df window"
    by (simp add: analyze_all_cities_parallel_def run_pool_def analyze_all_cities_def Let_def
        task_loop_map analyze_loop_executor_map split: sum.splits)
  then show ?thesis by simp
qed

theorem parallel_equals_serial_witness:
  "analyze_all_cities_parallel stable_sort_values [moscow_a, berlin_a, moscow_b] 2
     = analyze_all_cities stable_sort_values [moscow_a, berlin_a, moscow_b] 2"
  using parallel_equals_serial [of stable_sort_values "[moscow_a, berlin_a, moscow_b]" 2]
  by simp

lemma executor_map_first_failure:
  assumes "\<forall>p \<in> set pre. \<not> isl (worker p)" and "worker t = Inl e"
  shows "executor_map worker (pre @ t # post) = Inl e"
  using assms
proof (induction pre)
  case Nil
  then show ?case by simp
next
  case (Cons p pre)
  then obtain r where "worker p = Inr r"
    by (cases "worker p") auto
  with Cons show ?case by simp
qed

lemma first_failure_split:
  assumes "t \<in> set tasks" and "isl (worker t)"
  shows "\<exists>pre t' post. tasks = pre @ t' # post
           \<and> (\<forall>p \<in> set pre. \<not> isl (worker p)) \<and> isl (worker t')"
proof -
  from assms have "\<exists>x \<in> set tasks. isl (worker x)" by blast
  from split_list_first_prop [OF this]
  show ?thesis by blast
qed

lemma analyze_all_cities_parallel_fails:
  assumes "c \<in> set (unique (map city df))"
    and "analyze_city srt (filter (\<lambda>r. city r = c) df) window = Inl e"
  shows "analyze_all_cities_parallel srt df window = Inl e"
proof -
  from assms(2) have w: "window < 0" and e: "e = ValueError"
    by (simp_all add: analyze_city_fails)
  from assms(1) obtain c0 cs where cs: "unique (map city df) = c0 # cs"
    by (cases "unique (map city df)") auto
  have "analyze_city_wrapper srt (filter (\<lambda>r. city r = c0) df, window) = Inl e"
    using w e by (simp add: analyze_city_wrapper_def analyze_city_fails)
  then show ?thesis
    by (simp add: analyze_all_cities_parallel_def run_pool_def Let_def cs task_loop_map)
qed

text \<open>
  Claim C6. The parallel run is the pool over the tasks of the partitions. For every worker
  and every task list, if any task fails, then the run fails with one error, the one of the
  first failed task in task order, and returns no rows: the rows of the tasks that
  succeeded, before or after the failed one, are not returned.
\<close>

theorem parallel_fails_as_a_whole:
  assumes "t \<in> set tasks" and "isl (worker t)"
  shows "analyze_all_cities_parallel srt df window
           = run_pool (analyze_city_wrapper srt)
               (map (\<lambda>c. (filter (\<lambda>r. city r = c) df, window)) (unique (map city df)))
       \<and> (\<exists>pre t' post e. tasks = pre @ t' # post
             \<and> (\<forall>p \<in> set pre. \<not> isl (worker p))
             \<and> worker t' = Inl e
             \<and> run_pool worker tasks = Inl e)"
proof -
  have prog: "analyze_all_cities_parallel srt df window
           = run_pool (analyze_city_wrapper srt)
               (map (\<lambda>c. (filter (\<lambda>r. city r = c) df, window)) (unique (map city df)))"
    by (simp add: analyze_all_cities_parallel_def Let_def task_loop_map)
  from first_failure_split [of t tasks worker, OF assms] obtain pre t' post where
    split: "tasks = pre @ t' # post" and ok: "\<forall>p \<in> set pre. \<not> isl (worker p)"
    and bad: "isl (worker t')"
    by blast
  from bad obtain e where e: "worker t' = Inl e"
    by (cases "worker t'") auto
  have "executor_map worker tasks = Inl e"
    unfolding split using ok e by (rule executor_map_first_failure)
  then have "run_pool worker tasks = Inl e"
    by (simp add: run_pool_def)
  with prog split ok e show ?thesis by blast
qed

theorem parallel_fails_as_a_whole_witness:
  "\<not> isl (analyze_city_wrapper stable_sort_values ([moscow_a], 1))
   \<and> isl (analyze_city_wrapper stable_sort_values ([berlin_a], - 1))
   \<and> \<not> isl (analyze_city_wrapper stable_sort_values ([moscow_b], 1))
   \<and> run_pool (analyze_city_wrapper stable_sort_values)
        [([moscow_a], 1), ([berlin_a], - 1), ([moscow_b], 1)] = Inl ValueError"
proof -
  let ?w = "analyze_city_wrapper stable_sort_values"
  let ?tasks = "[([moscow_a], 1), ([berlin_a], - 1), ([moscow_b], 1)]"
  have ok1: "\<not> isl (?w ([moscow_a], 1))" and ok3: "\<not> isl (?w ([moscow_b], 1))"
    by (simp_all add: analyze_city_wrapper_def analyze_city_def Let_def)
  have bad: "isl (?w ([berlin_a], - 1))"
    by (simp add: analyze_city_wrapper_def analyze_city_def Let_def)
  have mem: "([berlin_a], - 1) \<in> set ?tasks" by simp
  from parallel_fails_as_a_whole
         [where worker = ?w and tasks = ?tasks and t = "([berlin_a], - 1)", OF mem bad]
  obtain e :: py_error and t' where "?w t' = Inl e" and "run_pool ?w ?tasks = Inl e"
    by blast
  moreover from this(1) have "e = ValueError"
    by (cases t') (simp add: analyze_city_wrapper_def analyze_city_fails)
  ultimately show ?thesis using ok1 ok3 bad by simp
qed

section \<open>The check of the current temperature\<close>

lemma find_filter_Cons: "find P xs = Some b \<Longrightarrow> \<exists>rest. filter P xs = b # rest"
  by (induction xs) (auto split: if_splits)

text \<open>
  Claim C4. The season follows from the calendar month by the fixed mapping (December to
  February winter, March to May spring, June to August summer, September to November
  autumn). Where the table of baselines has an entry for the city and that season, the
  check returns true exactly if the live value is strictly below \<open>mean - 2 * std\<close> or
  strictly above \<open>mean + 2 * std\<close> of the entry; the entry read is the first one for the
  key, and a comparison with an undefined bound is false.
\<close>

theorem check_current_temperature_anomaly_hit:
  assumes "find (\<lambda>s. st_city s = c \<and> st_season s = season_of_month month_num) season_stats
             = Some b"
  shows "(month_num \<in> {12, 1, 2} \<longrightarrow> season_of_month month_num = ''winter'')
       \<and> (month_num \<in> {3, 4, 5} \<longrightarrow> season_of_month month_num = ''spring'')
       \<and> (month_num \<in> {6, 7, 8} \<longrightarrow> season_of_month month_num = ''summer'')
       \<and> (month_num \<in> {9, 10, 11} \<longrightarrow> season_of_month month_num = ''autumn'')
       \<and> (\<forall>m s. mean b = Some m \<and> std b = Some s \<longrightarrow>
             check_current_temperature_anomaly month_num c v season_stats
               = Inr (v < m - 2 * s \<or> v > m + 2 * s))
       \<and> (mean b = None \<or> std b = None \<longrightarrow>
             check_current_temperature_anomaly month_num c v season_stats = Inr False)"
proof -
  have season:
    "(month_num \<in> {12, 1, 2} \<longrightarrow> season_of_month month_num = ''winter'')
       \<and> (month_num \<in> {3, 4, 5} \<longrightarrow> season_of_month month_num = ''spring'')
       \<and> (month_num \<in> {6, 7, 8} \<longrightarrow> season_of_month month_num = ''summer'')
       \<and> (month_num \<in> {9, 10, 11} \<longrightarrow> season_of_month month_num = ''autumn'')"
    by (auto simp: season_of_month_def)
  from find_filter_Cons [OF assms] obtain rest where
    f: "filter (\<lambda>s. st_city s = c \<and> st_season s = season_of_month month_num) season_stats
          = b # rest"
    by (elim exE)
  have some: "check_current_temperature_anomaly month_num c v season_stats
               = Inr (v < m - 2 * s \<or> v > m + 2 * s)"
    if "mean b = Some m" "std b = Some s" for m s
    using that
    by (simp add: check_current_temperature_anomaly_def Let_def f nan_lt_def nan_gt_def)
  have none: "check_current_temperature_anomaly month_num c v season_stats = Inr False"
    if "mean b = None \<or> std b = None"
    using that
    by (auto simp: check_current_temperature_anomaly_def Let_def f nan_lt_def nan_gt_def
        nan_sub_def nan_add_def nan_mul_def split: option.splits)
  show ?thesis using season some none by blast
qed

theorem check_current_temperature_anomaly_hit_witness:
  "check_current_temperature_anomaly 1 ''CityA'' 32 [city_a_winter] = Inr True
   \<and> season_of_month 1 = ''winter''"
  using check_current_temperature_anomaly_hit
          [where month_num = 1 and c = "''CityA''" and season_stats = "[city_a_winter]"
             and b = city_a_winter and v = 32]
  by (simp add: city_a_winter_def season_of_month_def)

text \<open>
  Claim C5. Where the table of baselines has no entry for the city and the season of the
  reference month, the check returns no boolean: it fails, with the \<open>IndexError\<close> of the
  empty selection, and falls back on no other entry.
\<close>

theorem check_current_temperature_anomaly_missing:
  assumes "\<forall>s \<in> set season_stats.
             \<not> (st_city s = c \<and> st_season s = season_of_month month_num)"
  shows "check_current_temperature_anomaly month_num c v season_stats = Inl IndexError"
proof -
  have "filter (\<lambda>s. st_city s = c \<and> st_season s = season_of_month month_num) season_stats = []"
    using assms by (simp add: filter_empty_conv)
  then show ?thesis
    by (simp add: check_current_temperature_anomaly_def Let_def)
qed

theorem check_current_temperature_anomaly_missing_witness:
  "check_current_temperature_anomaly 1 ''CityB'' 10 [city_a_winter] = Inl IndexError"
  using check_current_temperature_anomaly_missing [of "[city_a_winter]" "''CityB''" 1 10]
  by (simp add: city_a_winter_def)

section \<open>Seasonal statistics of a single observation\<close>

lemma filter_eq_distinct:
  "distinct xs \<Longrightarrow> x \<in> set xs \<Longrightarrow> filter (\<lambda>y. y = x) xs = [x]"
  by (induction xs) (auto simp: filter_empty_conv)

lemma group_keys:
  "distinct (sort (remdups (map (\<lambda>r. (city r, season r)) df)))"
  "set (sort (remdups (map (\<lambda>r. (city r, season r)) df))) = (\<lambda>r. (city r, season r)) ` set df"
  by simp_all

lemma season_stats_lookup:
  assumes "(c, s) \<in> (\<lambda>r. (city r, season r)) ` set df"
  shows "filter (\<lambda>x. st_city x = c \<and> st_season x = s) (compute_season_stats df)
           = [\<lparr> st_city = c, st_season = s,
                mean = group_mean (map temperature (filter (\<lambda>r. city r = c \<and> season r = s) df)),
                std = group_std (map temperature (filter (\<lambda>r. city r = c \<and> season r = s) df)) \<rparr>]"
proof -
  let ?keys = "sort (remdups (map (\<lambda>r. (city r, season r)) df))"
  let ?f = "\<lambda>(c, s). \<lparr> st_city = c, st_season = s,
                mean = group_mean (map temperature (filter (\<lambda>r. city r = c \<and> season r = s) df)),
                std = group_std (map temperature (filter (\<lambda>r. city r = c \<and> season r = s) df)) \<rparr>"
  have "filter (\<lambda>x. st_city x = c \<and> st_season x = s) (map ?f ?keys)
          = map ?f (filter (\<lambda>k. k = (c, s)) ?keys)"
    by (simp add: filter_map comp_def case_prod_unfold prod_eq_iff)
  also have "filter (\<lambda>k. k = (c, s)) ?keys = [(c, s)]"
    using assms by (intro filter_eq_distinct) (simp_all only: group_keys)
  finally show ?thesis by (simp add: compute_season_stats_def Let_def)
qed

lemma season_stats_absent:
  assumes "(c, s) \<notin> (\<lambda>r. (city r, season r)) ` set df"
  shows "filter (\<lambda>x. st_city x = c \<and> st_season x = s) (compute_season_stats df) = []"
  using assms by (auto simp: compute_season_stats_def Let_def filter_empty_conv)

text \<open>
  Claim C10. Where a (city, season) pair has exactly one observation in the dataset, the
  seasonal statistics hold one entry for the pair, its standard deviation is NaN, and the
  check against these statistics returns false for every live value in every month of that
  season: the pair is never flagged and never reported as missing.
\<close>

theorem single_observation_never_anomalous:
  assumes "length (filter (\<lambda>r. city r = c \<and> season r = s) df) = 1"
  shows "\<exists>b. filter (\<lambda>x. st_city x = c \<and> st_season x = s) (compute_season_stats df) = [b]
           \<and> std b = None
           \<and> (\<forall>month_num v. season_of_month month_num = s \<longrightarrow>
                 check_current_temperature_anomaly month_num c v (compute_season_stats df)
                   = Inr False)"
proof -
  let ?grp = "filter (\<lambda>r. city r = c \<and> season r = s) df"
  let ?b = "\<lparr> st_city = c, st_season = s,
              mean = group_mean (map temperature ?grp), std = group_std (map temperature ?grp) \<rparr>"
  from assms obtain r where "?grp = [r]"
    by (cases ?grp) simp_all
  then have "r \<in> set ?grp" by simp
  then have key: "(c, s) \<in> (\<lambda>r. (city r, season r)) ` set df"
    by (auto simp: image_iff)
  have sel: "filter (\<lambda>x. st_city x = c \<and> st_season x = s) (compute_season_stats df) = [?b]"
    using key by (rule season_stats_lookup)
  have nan: "std ?b = None"
    using assms by (simp add: group_std_single)
  have "check_current_temperature_anomaly month_num c v (compute_season_stats df) = Inr False"
    if "season_of_month month_num = s" for month_num v
    using that nan
    by (simp add: check_current_temperature_anomaly_def Let_def sel nan_lt_def nan_gt_def)
  with sel nan show ?thesis by blast
qed

theorem single_observation_never_anomalous_witness:
  "check_current_temperature_anomaly 1 ''Moscow'' 100
     (compute_season_stats [moscow_a, berlin_a, moscow_b, berlin_b, moscow_c]) = Inr False
   \<and> check_current_temperature_anomaly 1 ''Moscow'' (- 100)
     (compute_season_stats [moscow_a, berlin_a, moscow_b, berlin_b, moscow_c]) = Inr False"
  using single_observation_never_anomalous
          [of "''Moscow''" "''winter''" "[moscow_a, berlin_a, moscow_b, berlin_b, moscow_c]"]
  by (auto simp: moscow_a_def berlin_a_def moscow_b_def berlin_b_def moscow_c_def
      season_of_month_def)

section \<open>The order of the result rows\<close>

text \<open>
  The rows of the result of \<open>analyze_city\<close> are the rows of the sorted frame, one for one.
  A sort that meets \<open>sort_values_ok\<close> returns the rows by ascending timestamp; if no two
  rows of the frame share a timestamp, that order is the one of the stable sort. The order
  of rows with equal timestamps is left to the sort.
\<close>

lemma stable_sort_values_ok: "sort_values_ok stable_sort_values df"
  by (simp add: sort_values_ok_def stable_sort_values_def)

lemma analyze_city_rows:
  assumes "0 \<le> window"
  shows "\<exists>rs. analyze_city srt df window = Inr rs \<and> map row.truncate rs = srt df"
  using assms
  by (auto simp: analyze_city_Inr mk_result_def Let_def row.truncate_def intro!: nth_equalityI)

lemma sort_values_unique:
  assumes "sort_values_ok srt df" and "distinct (map timestamp df)"
  shows "srt df = stable_sort_values df"
proof -
  have m: "mset (srt df) = mset df" and s: "sorted (map timestamp (srt df))"
    using assms(1) by (simp_all add: sort_values_ok_def)
  have m': "mset (stable_sort_values df) = mset df"
    and s': "sorted (map timestamp (stable_sort_values df))"
    by (simp_all add: stable_sort_values_def)
  have inj: "inj_on timestamp (set df)" and d: "distinct df"
    using assms(2) by (simp_all add: distinct_map)
  have sets: "set (srt df) = set df" "set (stable_sort_values df) = set df"
    using m m' by (auto dest: mset_eq_setD)
  have dist: "distinct (srt df)" "distinct (stable_sort_values df)"
    using m m' d by (auto dest: mset_eq_imp_distinct_iff)
  show ?thesis
    using inj sets dist s s'
    by (intro map_sorted_distinct_set_unique [of timestamp]) (simp_all add: distinct_map)
qed

end
